theory Spec2Isabelle
  imports Main
begin

section \<open>Python strings\<close>

text \<open>
  A Python \<open>str\<close> is a sequence of Unicode code points, so a string is a list of
  natural numbers and \<open>len\<close> is \<open>length\<close>. ASCII literals of the source are written
  \<open>str ''...''\<close>; code points outside ASCII are written as numbers.
\<close>

type_synonym pystr = "nat list"

definition str :: "string \<Rightarrow> pystr" where
  "str cs = map of_char cs"

definition is_ascii_upper :: "nat \<Rightarrow> bool" where
  "is_ascii_upper c = (65 \<le> c \<and> c \<le> 90)"

definition is_ascii_lower :: "nat \<Rightarrow> bool" where
  "is_ascii_lower c = (97 \<le> c \<and> c \<le> 122)"

definition is_ascii_digit :: "nat \<Rightarrow> bool" where
  "is_ascii_digit c = (48 \<le> c \<and> c \<le> 57)"

definition is_ascii_letter :: "nat \<Rightarrow> bool" where
  "is_ascii_letter c = (is_ascii_lower c \<or> is_ascii_upper c)"

definition ascii_lower :: "nat \<Rightarrow> nat" where
  "ascii_lower c = (if is_ascii_upper c then c + 32 else c)"

definition ascii_upper :: "nat \<Rightarrow> nat" where
  "ascii_upper c = (if is_ascii_lower c then c - 32 else c)"

text \<open>
  What the program takes from the Python runtime and its libraries and does not define
  itself. The Unicode tables are consulted for code points from 128 on only; on ASCII
  the functions below are written out.
  \<^item> \<open>lower_ext s i\<close>: the lowercase mapping of the non-ASCII code point at index \<open>i\<close>
    of \<open>s\<close> (one to three code points; the string is passed because the mapping of
    capital sigma depends on its neighbours);
  \<^item> \<open>upper_ext c\<close>: the uppercase mapping of a non-ASCII code point;
  \<^item> \<open>decimal_ext c\<close>: the decimal digit value of a non-ASCII code point, if it is a
    decimal digit (category Nd);
  \<^item> \<open>int_max_str_digits\<close>: the interpreter's limit on the digits \<open>int\<close> converts
    (4300 by default, 0 for no limit);
  \<^item> \<open>sha1_hexdigest\<close>: \<open>hashlib.sha1(bytes).hexdigest()\<close>.
\<close>

record pylib =
  lower_ext :: "pystr \<Rightarrow> nat \<Rightarrow> pystr"
  upper_ext :: "nat \<Rightarrow> pystr"
  decimal_ext :: "nat \<Rightarrow> nat option"
  int_max_str_digits :: nat
  sha1_hexdigest :: "nat list \<Rightarrow> pystr"

definition py_lower :: "pylib \<Rightarrow> pystr \<Rightarrow> pystr" where
  \<comment> \<open>\<open>s.lower()\<close>\<close>
  "py_lower L s =
     concat (map (\<lambda>i. if s ! i < 128 then [ascii_lower (s ! i)] else lower_ext L s i)
                 [0..<length s])"

definition py_upper :: "pylib \<Rightarrow> pystr \<Rightarrow> pystr" where
  \<comment> \<open>\<open>s.upper()\<close>\<close>
  "py_upper L s =
     concat (map (\<lambda>c. if c < 128 then [ascii_upper c] else upper_ext L c) s)"

definition is_space :: "nat \<Rightarrow> bool" where
  \<comment> \<open>the code points \<open>str.strip()\<close> removes (\<open>str.isspace\<close>)\<close>
  "is_space c =
     ((0x09 \<le> c \<and> c \<le> 0x0D) \<or> (0x1C \<le> c \<and> c \<le> 0x20) \<or> c = 0x85 \<or> c = 0xA0
      \<or> c = 0x1680 \<or> (0x2000 \<le> c \<and> c \<le> 0x200A) \<or> c = 0x2028 \<or> c = 0x2029
      \<or> c = 0x202F \<or> c = 0x205F \<or> c = 0x3000)"

definition py_strip :: "pystr \<Rightarrow> pystr" where
  \<comment> \<open>\<open>s.strip()\<close>\<close>
  "py_strip s = rev (dropWhile is_space (rev (dropWhile is_space s)))"

fun contains :: "pystr \<Rightarrow> pystr \<Rightarrow> bool" where
  \<comment> \<open>\<open>sub in s\<close>\<close>
  "contains sub [] = (sub = [])"
| "contains sub (c # cs) = (take (length sub) (c # cs) = sub \<or> contains sub cs)"

definition is_decimal :: "pylib \<Rightarrow> nat \<Rightarrow> bool" where
  \<comment> \<open>what \<open>\d\<close> matches in a \<open>str\<close> pattern: a Unicode decimal digit\<close>
  "is_decimal L c = (if c < 128 then is_ascii_digit c else decimal_ext L c \<noteq> None)"

section \<open>Configuration and rule sets\<close>

definition HIBP_RANGE_API :: pystr where
  "HIBP_RANGE_API = str ''https://api.pwnedpasswords.com/range/''"

definition USER_AGENT :: pystr where
  "USER_AGENT = str ''PasswordAnalyzer/1.0 (your-email@example.com)''"

definition LOG_ENABLED :: bool where
  "LOG_ENABLED = True"

definition COMMON_PASSWORDS :: "pystr set" where
  "COMMON_PASSWORDS =
     {str ''123456'', str ''password'', str ''12345678'', str ''qwerty'', str ''abc123'',
      str ''password1'', str ''111111'', str ''123456789'', str ''12345'', str ''1234''}"

definition BANNED_SUBSTRINGS :: "pystr set" where
  "BANNED_SUBSTRINGS =
     {str ''password'', str ''pass'', str ''admin'', str ''qwerty'', str ''letmein'',
      str ''welcome''}"

definition LEET_MAP :: "nat \<rightharpoonup> pystr" where
  "LEET_MAP = map_of
     [(of_char CHR ''@'', str ''a''),
      (of_char CHR ''0'', str ''o''),
      (of_char CHR ''1'', str ''l''),
      (of_char CHR ''3'', str ''e''),
      (of_char CHR ''$'', str ''s''),
      (of_char CHR ''5'', str ''s''),
      (of_char CHR ''7'', str ''t''),
      (of_char CHR ''4'', str ''a''),
      (of_char CHR ''!'', str ''i'')]"

section \<open>Utility functions\<close>

definition translate :: "(nat \<rightharpoonup> pystr) \<Rightarrow> pystr \<Rightarrow> pystr" where
  \<comment> \<open>\<open>pw.translate(table)\<close>: a mapped code point is replaced, any other is kept\<close>
  "translate table pw = concat (map (\<lambda>c. case table c of Some r \<Rightarrow> r | None \<Rightarrow> [c]) pw)"

definition mask_password_for_log :: "pystr \<Rightarrow> pystr" where
  "mask_password_for_log pw =
     (if pw = [] then []
      else if length pw \<le> 2 then [pw ! 0] @ replicate (length pw - 1) (of_char CHR ''*'')
      else [pw ! 0] @ replicate (length pw - 2) (of_char CHR ''*'') @ [last pw])"

definition normalise_leet :: "pylib \<Rightarrow> pystr \<Rightarrow> pystr" where
  "normalise_leet L pw =
     (let translated = translate LEET_MAP pw;
          alpha_core = py_lower L (filter is_ascii_letter translated)
      in alpha_core)"

fun digit_run :: "pylib \<Rightarrow> pystr \<Rightarrow> bool" where
  \<comment> \<open>\<open>re.search(r"\d{3,}", pw)\<close>: three decimal digits in a row\<close>
  "digit_run L (a # b # c # cs) =
     ((is_decimal L a \<and> is_decimal L b \<and> is_decimal L c) \<or> digit_run L (b # c # cs))"
| "digit_run L cs = False"

fun repeat_run :: "pystr \<Rightarrow> bool" where
  \<comment> \<open>\<open>re.search(r"(.)\1\1", pw)\<close>: a code point other than the newline, three times
      in a row\<close>
  "repeat_run (a # b # c # cs) = ((a \<noteq> 10 \<and> b = a \<and> c = a) \<or> repeat_run (b # c # cs))"
| "repeat_run cs = False"

definition sequences :: "pystr list" where
  "sequences =
     [str ''1234'', str ''2345'', str ''3456'', str ''4567'', str ''5678'', str ''6789'',
      str ''7890'', str ''qwer'', str ''asdf'', str ''zxcv'', str ''abcd'', str ''password'']"

definition is_obvious_sequence :: "pylib \<Rightarrow> pystr \<Rightarrow> bool" where
  "is_obvious_sequence L pw =
     (if digit_run L pw then True
      else if repeat_run pw then True
      else (let low = py_lower L pw in list_ex (\<lambda>s. contains s low) sequences))"

definition is_common_variant :: "pylib \<Rightarrow> pystr \<Rightarrow> bool" where
  "is_common_variant L password =
     (let pw_lower = py_strip (py_lower L password) in
      if pw_lower \<in> COMMON_PASSWORDS then True
      else (let core = normalise_leet L password in
        if core \<noteq> [] \<and> core \<in> COMMON_PASSWORDS then True
        else if \<exists>sub\<in>BANNED_SUBSTRINGS. contains sub core then True
        else if is_obvious_sequence L password then True
        else False))"

section \<open>More of the Python library\<close>

datatype py_error = UnicodeEncodeError

definition utf8_bytes :: "nat \<Rightarrow> nat list" where
  "utf8_bytes c =
     (if c < 0x80 then [c]
      else if c < 0x800 then [0xC0 + c div 64, 0x80 + c mod 64]
      else if c < 0x10000 then [0xE0 + c div 4096, 0x80 + (c div 64) mod 64, 0x80 + c mod 64]
      else [0xF0 + c div 262144, 0x80 + (c div 4096) mod 64, 0x80 + (c div 64) mod 64,
            0x80 + c mod 64])"

fun utf8_encode :: "pystr \<Rightarrow> py_error + nat list" where
  \<comment> \<open>\<open>s.encode("utf-8")\<close>: a surrogate code point cannot be encoded\<close>
  "utf8_encode [] = Inr []"
| "utf8_encode (c # cs) =
     (if 0xD800 \<le> c \<and> c \<le> 0xDFFF then Inl UnicodeEncodeError
      else (case utf8_encode cs of Inl e \<Rightarrow> Inl e | Inr bs \<Rightarrow> Inr (utf8_bytes c @ bs)))"

definition is_linebreak :: "nat \<Rightarrow> bool" where
  \<comment> \<open>the line boundaries of \<open>str.splitlines()\<close>\<close>
  "is_linebreak c =
     ((0x0A \<le> c \<and> c \<le> 0x0D) \<or> (0x1C \<le> c \<and> c \<le> 0x1E) \<or> c = 0x85 \<or> c = 0x2028
      \<or> c = 0x2029)"

fun splitlines_from :: "pystr \<Rightarrow> pystr \<Rightarrow> pystr list" where
  \<comment> \<open>the lines of the rest of a text, \<open>cur\<close> being the line read so far; a carriage
      return followed by a line feed is one boundary\<close>
  "splitlines_from cur [] = (if cur = [] then [] else [cur])"
| "splitlines_from cur (c # cs) =
     (if c = 0x0D \<and> cs \<noteq> [] \<and> hd cs = 0x0A then cur # splitlines_from [] (tl cs)
      else if is_linebreak c then cur # splitlines_from [] cs
      else splitlines_from (cur @ [c]) cs)"

definition splitlines :: "pystr \<Rightarrow> pystr list" where
  \<comment> \<open>\<open>s.splitlines()\<close>\<close>
  "splitlines s = splitlines_from [] s"

fun py_split :: "nat \<Rightarrow> pystr \<Rightarrow> pystr list" where
  \<comment> \<open>\<open>s.split(sep)\<close> for a separator of one code point\<close>
  "py_split sep [] = [[]]"
| "py_split sep (c # cs) =
     (if c = sep then [] # py_split sep cs
      else (case py_split sep cs of p # ps \<Rightarrow> (c # p) # ps | [] \<Rightarrow> [[c]]))"

definition decimal_value :: "pylib \<Rightarrow> nat \<Rightarrow> nat option" where
  "decimal_value L c =
     (if c < 128 then (if is_ascii_digit c then Some (c - 48) else None) else decimal_ext L c)"

definition int_char :: "pylib \<Rightarrow> nat \<Rightarrow> nat" where
  \<comment> \<open>\<open>int\<close> first rewrites its argument to ASCII: whitespace to a space, a decimal
      digit to its ASCII digit, any other non-ASCII code point to a question mark\<close>
  "int_char L c =
     (if c < 127 then c
      else if is_space c then 32
      else (case decimal_value L c of Some d \<Rightarrow> 48 + d | None \<Rightarrow> 63))"

definition is_c_space :: "nat \<Rightarrow> bool" where
  "is_c_space c = (c = 32 \<or> (9 \<le> c \<and> c \<le> 13))"

definition int_digits_ok :: "pystr \<Rightarrow> bool" where
  \<comment> \<open>digits, with single underscores between digits only\<close>
  "int_digits_ok b =
     (b \<noteq> [] \<and> list_all (\<lambda>c. is_ascii_digit c \<or> c = 95) b \<and> hd b \<noteq> 95 \<and> last b \<noteq> 95
      \<and> \<not> contains [95, 95] b)"

definition py_int :: "pylib \<Rightarrow> pystr \<Rightarrow> int option" where
  \<comment> \<open>\<open>int(s)\<close> in base 10; \<open>None\<close> is \<open>ValueError\<close>: surrounding whitespace, a
      sign, the digits; more digits than the interpreter's limit (which applies from 640
      digits on) are refused\<close>
  "py_int L s =
     (let t = dropWhile is_c_space (map (int_char L) s);
          negative = (t \<noteq> [] \<and> hd t = 45);
          unsigned = (if t \<noteq> [] \<and> (hd t = 43 \<or> hd t = 45) then tl t else t);
          b = rev (dropWhile is_c_space (rev unsigned));
          ds = filter is_ascii_digit b;
          v = foldl (\<lambda>a c. 10 * a + int (c - 48)) 0 ds
      in if \<not> int_digits_ok b then None
         else if 0 < int_max_str_digits L \<and> 640 < length ds \<and> int_max_str_digits L < length ds
           then None
         else Some (if negative then - v else v))"

fun str_nat :: "nat \<Rightarrow> pystr" where
  "str_nat n = (if n < 10 then [48 + n] else str_nat (n div 10) @ [48 + n mod 10])"

definition str_int :: "int \<Rightarrow> pystr" where
  \<comment> \<open>\<open>str(i)\<close>, also what an f-string writes for an integer\<close>
  "str_int i = (if i < 0 then 45 # str_nat (nat (- i)) else str_nat (nat i))"

section \<open>The outside world and the effects of the program\<close>

record request =
  url :: pystr
  headers :: "(pystr \<times> pystr) list"
  timeout :: nat

datatype http_result = RequestException | Response (status_code: int) (resp_text: pystr)

text \<open>
  What the program reads from outside: the answer of \<open>requests.get\<close> to a request (a
  \<open>RequestException\<close>, or a response with its status and text), the clock, and whether
  appending a line to the log file succeeds. What it does is recorded: the texts printed,
  the lines appended to the log file, the requests sent.
\<close>

record world =
  http_get :: "request \<Rightarrow> http_result"
  utc_now_iso :: pystr
  log_append_ok :: "pystr \<Rightarrow> bool"

record io =
  stdout :: "pystr list"
  log_file :: "pystr list"
  requests_sent :: "request list"

definition py_print :: "pystr \<Rightarrow> io \<Rightarrow> io" where
  "py_print s st = st\<lparr>stdout := stdout st @ [s]\<rparr>"

section \<open>HIBP k-anonymity check\<close>

fun scan_lines :: "pylib \<Rightarrow> pystr \<Rightarrow> pystr list \<Rightarrow> int" where
  \<comment> \<open>the loop over the lines of the response\<close>
  "scan_lines L suffix [] = 0"
| "scan_lines L suffix (line # rest) =
     (let parts = py_split (of_char CHR '':'') line in
      if length parts \<noteq> 2 then scan_lines L suffix rest
      else (let returned_suffix = py_strip (parts ! 0); count = py_strip (parts ! 1) in
        if py_upper L returned_suffix = suffix
        then (case py_int L count of Some n \<Rightarrow> n | None \<Rightarrow> 1)
        else scan_lines L suffix rest))"

definition check_pwned ::
  "pylib \<Rightarrow> world \<Rightarrow> pystr \<Rightarrow> pystr \<Rightarrow> io \<Rightarrow> (py_error + int option) \<times> io" where
  "check_pwned L W password user_agent st =
     (case utf8_encode password of
        Inl e \<Rightarrow> (Inl e, st)
      | Inr bytes \<Rightarrow>
          (let sha1 = py_upper L (sha1_hexdigest L bytes);
               prefix = take 5 sha1;
               suffix = drop 5 sha1;
               hdrs = [(str ''User-Agent'', user_agent)];
               rq = \<lparr>url = HIBP_RANGE_API @ prefix, headers = hdrs, timeout = 10\<rparr>;
               st1 = st\<lparr>requests_sent := requests_sent st @ [rq]\<rparr>
           in (case http_get W rq of
                 RequestException \<Rightarrow> (Inr None, st1)
               | Response status body \<Rightarrow>
                   if status \<noteq> 200 then (Inr None, st1)
                   else (Inr (Some (scan_lines L suffix (splitlines body))), st1))))"

section \<open>Safe logging\<close>

definition log_result :: "world \<Rightarrow> pystr \<Rightarrow> int \<Rightarrow> pystr \<Rightarrow> int option \<Rightarrow> io \<Rightarrow> io" where
  \<comment> \<open>an exception of the write is swallowed: the file is then left as it was\<close>
  "log_result W masked_pw score strength_label pwned_count st =
     (let timestamp = utc_now_iso W;
          pwned_str = (case pwned_count of None \<Rightarrow> str ''unknown'' | Some n \<Rightarrow> str_int n);
          line = timestamp @ [9] @ masked_pw @ [9] @ str_int score @ str ''/10'' @ [9]
                 @ strength_label @ [9] @ str ''pwned:'' @ pwned_str @ [10]
      in if LOG_ENABLED
         then (if log_append_ok W line then st\<lparr>log_file := log_file st @ [line]\<rparr> else st)
         else st)"

section \<open>Main scoring function\<close>

definition label_common :: pystr where
  "label_common = [0x274C] @ str '' Very Weak (common or predictable pattern detected)''"

definition label_breached :: pystr where
  "label_breached = [0x274C] @ str '' Very Weak (found in data breaches)''"

definition label_strong :: pystr where
  "label_strong = [0x2705] @ str '' Strong''"

definition label_moderate :: pystr where
  "label_moderate = [0x26A0, 0xFE0F] @ str '' Moderate''"

definition label_weak :: pystr where
  "label_weak = [0x274C] @ str '' Weak''"

definition special_chars :: pystr where
  \<comment> \<open>the character class of the last rule; 34 is the double quote, 96 the backquote\<close>
  "special_chars = str ''!@#$%^&*(),.?'' @ [34] @ str '':{}|<>~'' @ [96] @ str ''+=_-''"

definition score_rules :: "pystr \<Rightarrow> int \<times> pystr list" where
  \<comment> \<open>the scoring rules: the score and the feedback they leave\<close>
  "score_rules password =
     (let score = 0; feedback = [];
          (score, feedback) =
            (if 12 \<le> length password then (score + 2, feedback)
             else if 8 \<le> length password then (score + 1, feedback)
             else (score, feedback
                    @ [[0x274C] @ str '' Password too short (minimum 8 characters).'']));
          (score, feedback) =
            (if list_ex is_ascii_upper password then (score + 2, feedback)
             else (score, feedback
                    @ [[0x274C] @ str '' Add at least one uppercase letter (A-Z).'']));
          (score, feedback) =
            (if list_ex is_ascii_lower password then (score + 2, feedback)
             else (score, feedback
                    @ [[0x274C] @ str '' Add at least one lowercase letter (a-z).'']));
          (score, feedback) =
            (if list_ex is_ascii_digit password then (score + 2, feedback)
             else (score, feedback @ [[0x274C] @ str '' Add at least one number (0-9).'']));
          (score, feedback) =
            (if list_ex (\<lambda>c. c \<in> set special_chars) password then (score + 2, feedback)
             else (score, feedback
                    @ [[0x274C] @ str '' Add at least one special character (!,@,#,$, etc).'']));
          score = (if score mod 2 = 1 then score + 1 else score)
      in (score, feedback))"

definition strength_label_of :: "int \<Rightarrow> pystr" where
  "strength_label_of score =
     (if 9 \<le> score then label_strong
      else if 6 \<le> score then label_moderate
      else label_weak)"

definition print_report :: "pystr \<Rightarrow> int \<Rightarrow> pystr \<Rightarrow> io \<Rightarrow> io" where
  \<comment> \<open>the three prints every report starts with\<close>
  "print_report strength_label score bar st =
     (let st = py_print ([10] @ str ''Password Strength: '' @ strength_label) st;
          st = py_print (str ''Score: '' @ str_int score @ str '' / 10'') st
      in py_print bar st)"

definition reject_common :: "world \<Rightarrow> pystr \<Rightarrow> io \<Rightarrow> io" where
  \<comment> \<open>1) the branch of a common variant\<close>
  "reject_common W password st =
     (let strength_label = label_common; score = 0; bar = str ''[----------]'';
          st = print_report strength_label score bar st;
          st = py_print (str ''Suggestions:'' @ [10]
                 @ str '' - Avoid common words or predictable patterns.'' @ [10]
                 @ str '' - Use a unique long passphrase.'') st
      in log_result W (mask_password_for_log password) score strength_label (Some 0) st)"

definition reject_breached :: "world \<Rightarrow> pystr \<Rightarrow> int \<Rightarrow> io \<Rightarrow> io" where
  \<comment> \<open>2) the branch of a password found in breaches\<close>
  "reject_breached W password pwned_count st =
     (let strength_label = label_breached; score = 0; bar = str ''[----------]'';
          st = py_print ([10] @ str ''Password Strength: '' @ strength_label) st;
          st = py_print (str ''Seen '' @ str_int pwned_count @ str '' times in breaches.'') st;
          st = py_print (str ''Score: '' @ str_int score @ str '' / 10'') st;
          st = py_print bar st;
          st = py_print (str ''Suggestions:'' @ [10]
                 @ str '' - Do not reuse breached passwords. Use a unique passphrase or a manager.'')
                 st
      in log_result W (mask_password_for_log password) score strength_label (Some pwned_count) st)"

definition score_and_report :: "world \<Rightarrow> pystr \<Rightarrow> int option \<Rightarrow> io \<Rightarrow> io" where
  \<comment> \<open>3) the scoring rules, the label, the bar, the report and the log line\<close>
  "score_and_report W password pwned_count st =
     (let (score, feedback) = score_rules password;
          strength_label = strength_label_of score;
          filled_slots = score div 2;
          total_slots = 5;
          bar = str ''['' @ replicate (nat filled_slots) (of_char CHR ''#'')
                @ replicate (nat (total_slots - filled_slots)) (of_char CHR ''-'') @ str '']'';
          st = print_report strength_label score bar st;
          st = (if feedback \<noteq> []
                then foldl (\<lambda>st tip. py_print (str '' - '' @ tip) st)
                       (py_print (str ''Suggestions:'') st) feedback
                else py_print
                       (str ''Great! Your password meets the basic recommended checks.'') st)
      in log_result W (mask_password_for_log password) score strength_label pwned_count st)"

definition check_strength ::
  "pylib \<Rightarrow> world \<Rightarrow> pystr \<Rightarrow> bool \<Rightarrow> io \<Rightarrow> (py_error + unit) \<times> io" where
  "check_strength L W password use_hibp st =
     (if password = [] then (Inr (), py_print (str ''No password entered.'') st)
      else if is_common_variant L password then (Inr (), reject_common W password st)
      else if use_hibp then
        (case check_pwned L W password USER_AGENT st of
           (Inl e, st) \<Rightarrow> (Inl e, st)
         | (Inr None, st) \<Rightarrow>
             (Inr (), score_and_report W password None
                (py_print (str ''Warning: Could not check password against breach database. Continuing local checks...'') st))
         | (Inr (Some pwned_count), st) \<Rightarrow>
             if 0 < pwned_count then (Inr (), reject_breached W password pwned_count st)
             else (Inr (), score_and_report W password (Some pwned_count) st))
      else (Inr (), score_and_report W password None st))"

section \<open>The pattern detector in the words of the specification\<close>




section \<open>A runtime and a world for concrete runs\<close>

text \<open>
  The concrete runs below hash three passwords; \<open>sha1_known\<close> holds their SHA-1 digests
  as \<open>hashlib\<close> computes them (a password of ASCII characters is its own UTF-8
  encoding). \<open>demo_lib\<close> answers any other input with the digest of the empty byte
  string, and its Unicode tables map every code point to itself and know no digit
  outside ASCII: the runs use no code point that they would map otherwise.
  \<open>demo_world answer\<close> is a world whose service gives \<open>answer\<close> to every request.
\<close>

definition sha1_known :: "(nat list \<times> pystr) list" where
  "sha1_known =
     [(str ''Tr0ub4dor&3xyz!'', str ''1680239b4266df6cbf9d9dea1300736c533ea397''),
      (str ''maple-ocean-18'', str ''fe53056c954910cb540baad351d5442ca3b96067''),
      (str ''river-stone-24'', str ''fe5306020e3a0fa14506f1c00b563b97b9263c81'')]"

definition demo_lib :: pylib where
  "demo_lib =
     \<lparr>lower_ext = (\<lambda>s i. [s ! i]),
      upper_ext = (\<lambda>c. [c]),
      decimal_ext = (\<lambda>c. None),
      int_max_str_digits = 4300,
      sha1_hexdigest = (\<lambda>bs. case map_of sha1_known bs of
                                Some d \<Rightarrow> d
                              | None \<Rightarrow> str ''da39a3ee5e6b4b0d3255bfef95601890afd80709'')\<rparr>"

definition demo_world :: "http_result \<Rightarrow> world" where
  "demo_world answer =
     \<lparr>http_get = (\<lambda>rq. answer),
      utc_now_iso = str ''2024-05-01T12:00:00+00:00'',
      log_append_ok = (\<lambda>line. True)\<rparr>"

definition io0 :: io where
  "io0 = \<lparr>stdout = [], log_file = [], requests_sent = []\<rparr>"

text \<open>
  Two response bodies for the password \<open>Tr0ub4dor&3xyz!\<close>, whose digest starts with
  \<open>16802\<close>: in each the second line carries the suffix of that digest, once in lower
  case with the count 12, once with the count \<open>-5\<close>. Lines end with a carriage return
  and a line feed.
\<close>

definition body_found :: pystr where
  "body_found =
     str ''0018A45C4D1DEF81644B54AB7F969B88D65:3'' @ [13, 10]
     @ str ''39b4266df6cbf9d9dea1300736c533ea397:12'' @ [13, 10]"

definition body_negative :: pystr where
  "body_negative =
     str ''0018A45C4D1DEF81644B54AB7F969B88D65:3'' @ [13, 10]
     @ str ''39B4266DF6CBF9D9DEA1300736C533EA397:-5'' @ [13, 10]"

section \<open>Properties of the string functions\<close>

lemmas char_defs = is_ascii_letter_def is_ascii_lower_def is_ascii_upper_def
  is_ascii_digit_def ascii_lower_def ascii_upper_def

lemma py_lower_ascii:
  assumes "\<forall>c\<in>set s. c < 128"
  shows "py_lower L s = map ascii_lower s"
proof -
  have "py_lower L s = concat (map (\<lambda>i. [ascii_lower (s ! i)]) [0..<length s])"
    unfolding py_lower_def using assms by (intro arg_cong[where f=concat] map_cong) auto
  also have "\<dots> = map (\<lambda>i. ascii_lower (s ! i)) [0..<length s]"
    by (induction "[0..<length s]") simp_all
  also have "\<dots> = map ascii_lower s"
    by (simp add: map_nth flip: map_map [unfolded comp_def])
  finally show ?thesis .
qed


lemma py_upper_ascii:
  assumes "\<forall>c\<in>set s. c < 128"
  shows "py_upper L s = map ascii_upper s"
  using assms by (induction s) (simp_all add: py_upper_def)

lemma is_ascii_letter_lt: "is_ascii_letter c \<Longrightarrow> c < 128"
  by (auto simp: char_defs)

lemma normalise_leet_eq:
  "normalise_leet L pw = map ascii_lower (filter is_ascii_letter (translate LEET_MAP pw))"
  unfolding normalise_leet_def Let_def
  by (rule py_lower_ascii) (simp add: is_ascii_letter_lt)






lemma hd_py_strip:
  assumes "py_strip s \<noteq> []"
  shows "\<not> is_space (hd (py_strip s))"
proof -
  define y where "y = dropWhile is_space s"
  have "rev (dropWhile is_space (rev y)) @ rev (takeWhile is_space (rev y)) = y"
    by (metis rev_append rev_rev_ident takeWhile_dropWhile_id)
  then have "hd (py_strip s) = hd y" "y \<noteq> []"
    using assms unfolding py_strip_def y_def [symmetric] by (metis hd_append2, auto)
  then show ?thesis
    unfolding y_def using hd_dropWhile by metis
qed

lemma is_c_space_is_space: "is_c_space c \<Longrightarrow> is_space c"
  by (auto simp: is_c_space_def is_space_def)

lemma int_char_head:
  assumes "\<not> is_space c"
  shows "\<not> is_c_space (int_char L c)" and "int_char L c = 45 \<Longrightarrow> c = 45"
  using assms is_c_space_is_space [of c]
  by (auto simp: int_char_def is_c_space_def split: option.splits if_splits)

lemma foldl_digits_nonneg:
  "0 \<le> a \<Longrightarrow> 0 \<le> foldl (\<lambda>a c. 10 * a + int (c - 48)) a ds"
  by (induction ds arbitrary: a) simp_all

lemma py_int_negative:
  assumes "py_int L (py_strip s) = Some n" and "n < 0"
  shows "hd (py_strip s) = 45"
proof -
  define t where "t = dropWhile is_c_space (map (int_char L) (py_strip s))"
  have neg: "t \<noteq> [] \<and> hd t = 45"
    using assms foldl_digits_nonneg [of 0]
    unfolding py_int_def Let_def t_def [symmetric]
    by (auto split: if_splits simp: not_less [symmetric])
  then have ne: "py_strip s \<noteq> []"
    unfolding t_def by auto
  then obtain c cs where c: "py_strip s = c # cs"
    by (cases "py_strip s") auto
  have "\<not> is_space c"
    using hd_py_strip [OF ne] c by simp
  then have "t = int_char L c # map (int_char L) cs" "int_char L c = 45 \<Longrightarrow> c = 45"
    unfolding t_def c using int_char_head [of c L] by simp_all
  then show ?thesis
    using neg c by simp
qed

lemma str_int_0 [simp]: "str_int 0 = str ''0''"
  by (simp add: str_int_def str_def)

section \<open>Properties of the pattern detector\<close>

lemma is_common_variant_Nil: "is_common_variant L [] = False"
  by (simp add: is_common_variant_def py_lower_def py_strip_def COMMON_PASSWORDS_def str_def
      normalise_leet_def translate_def BANNED_SUBSTRINGS_def is_obvious_sequence_def
      sequences_def)

lemma is_common_variant_nonempty: "is_common_variant L pw \<Longrightarrow> pw \<noteq> []"
  using is_common_variant_Nil by blast














section \<open>Effects of the report\<close>

lemma py_print_simps [simp]:
  "stdout (py_print s st) = stdout st @ [s]"
  "log_file (py_print s st) = log_file st"
  "requests_sent (py_print s st) = requests_sent st"
  by (simp_all add: py_print_def)

lemma log_result_simps [simp]:
  "stdout (log_result W m sc l c st) = stdout st"
  "requests_sent (log_result W m sc l c st) = requests_sent st"
  by (simp_all add: log_result_def Let_def)

lemma log_file_log_result:
  "log_file (log_result W m sc l c st) =
     (let line = utc_now_iso W @ [9] @ m @ [9] @ str_int sc @ str ''/10'' @ [9] @ l @ [9]
                 @ str ''pwned:''
                 @ (case c of None \<Rightarrow> str ''unknown'' | Some n \<Rightarrow> str_int n) @ [10]
      in if log_append_ok W line then log_file st @ [line] else log_file st)"
  by (simp add: log_result_def Let_def LOG_ENABLED_def)

lemma log_result_http_get [simp]:
  "log_result (W\<lparr>http_get := g\<rparr>) m sc l c st = log_result W m sc l c st"
  by (simp add: log_result_def Let_def)

lemma stdout_print_all:
  "stdout (foldl (\<lambda>st tip. py_print (f tip) st) st tips) = stdout st @ map f tips"
  by (induction tips arbitrary: st) simp_all

lemma stdout_print_report [simp]:
  "stdout (print_report l sc bar st) =
     stdout st @ [[10] @ str ''Password Strength: '' @ l,
                  str ''Score: '' @ str_int sc @ str '' / 10'', bar]"
  by (simp add: print_report_def Let_def)

lemma print_report_other [simp]:
  "log_file (print_report l sc bar st) = log_file st"
  "requests_sent (print_report l sc bar st) = requests_sent st"
  by (simp_all add: print_report_def Let_def)

lemma stdout_reject_common:
  "stdout (reject_common W pw st) =
     stdout st @ [[10] @ str ''Password Strength: '' @ label_common,
                  str ''Score: 0 / 10'', str ''[----------]'',
                  str ''Suggestions:'' @ [10]
                  @ str '' - Avoid common words or predictable patterns.'' @ [10]
                  @ str '' - Use a unique long passphrase.'']"
  by (simp add: reject_common_def Let_def str_def)


lemma stdout_score_and_report:
  "stdout (score_and_report W pw c st) =
     stdout st
     @ [[10] @ str ''Password Strength: '' @ strength_label_of (fst (score_rules pw)),
        str ''Score: '' @ str_int (fst (score_rules pw)) @ str '' / 10'',
        str ''['' @ replicate (nat (fst (score_rules pw) div 2)) (of_char CHR ''#'')
        @ replicate (nat (5 - fst (score_rules pw) div 2)) (of_char CHR ''-'') @ str '']'']
     @ (if snd (score_rules pw) \<noteq> []
        then str ''Suggestions:'' # map (\<lambda>tip. str '' - '' @ tip) (snd (score_rules pw))
        else [str ''Great! Your password meets the basic recommended checks.''])"
  by (simp add: score_and_report_def Let_def split_beta stdout_print_all)

lemma reject_common_http_get [simp]:
  "reject_common (W\<lparr>http_get := g\<rparr>) pw st = reject_common W pw st"
  by (simp add: reject_common_def Let_def)

lemma log_file_reject_common:
  "log_file (reject_common W pw st) =
     (let line = utc_now_iso W @ [9] @ mask_password_for_log pw @ [9] @ str ''0/10'' @ [9]
                 @ label_common @ [9] @ str ''pwned:0'' @ [10]
      in if log_append_ok W line then log_file st @ [line] else log_file st)"
  by (simp add: reject_common_def Let_def log_file_log_result str_def)

lemma requests_reject_common [simp]:
  "requests_sent (reject_common W pw st) = requests_sent st"
  by (simp add: reject_common_def Let_def)

lemma check_strength_common:
  "is_common_variant L pw \<Longrightarrow> check_strength L W pw h st = (Inr (), reject_common W pw st)"
  by (simp add: check_strength_def is_common_variant_nonempty)





section \<open>Properties of the lookup\<close>


lemma check_pwned_encodable:
  assumes "utf8_encode password = Inr bytes"
  shows "check_pwned L W password ua st =
     (let sha1 = py_upper L (sha1_hexdigest L bytes);
          rq = \<lparr>url = HIBP_RANGE_API @ take 5 sha1, headers = [(str ''User-Agent'', ua)],
                timeout = 10\<rparr>;
          st1 = st\<lparr>requests_sent := requests_sent st @ [rq]\<rparr>
      in (case http_get W rq of
            RequestException \<Rightarrow> (Inr None, st1)
          | Response status body \<Rightarrow>
              if status \<noteq> 200 then (Inr None, st1)
              else (Inr (Some (scan_lines L (drop 5 sha1) (splitlines body))), st1)))"
  using assms by (simp add: check_pwned_def Let_def)

lemma requests_check_pwned:
  "requests_sent (snd (check_pwned L W password ua st)) =
     (case utf8_encode password of
        Inl e \<Rightarrow> requests_sent st
      | Inr bytes \<Rightarrow>
          requests_sent st
          @ [\<lparr>url = HIBP_RANGE_API @ take 5 (py_upper L (sha1_hexdigest L bytes)),
               headers = [(str ''User-Agent'', ua)], timeout = 10\<rparr>])"
  by (simp add: check_pwned_def Let_def split: sum.splits http_result.splits)

lemma scan_lines_find:
  "scan_lines L suffix ls =
     (case find (\<lambda>line. length (py_split 58 line) = 2
                        \<and> py_upper L (py_strip (py_split 58 line ! 0)) = suffix) ls of
        None \<Rightarrow> 0
      | Some line \<Rightarrow> (case py_int L (py_strip (py_split 58 line ! 1)) of
                       Some n \<Rightarrow> n | None \<Rightarrow> 1))"
  by (induction ls) (simp_all add: Let_def)

section \<open>The concrete runs\<close>

lemma demo_common: "is_common_variant demo_lib (str ''P@ssw0rd'')"
  by (simp add: is_common_variant_def normalise_leet_eq translate_def LEET_MAP_def
      COMMON_PASSWORDS_def str_def char_defs py_lower_def py_strip_def is_space_def upt_rec)


lemma demo_encode:
  "utf8_encode (str ''Tr0ub4dor&3xyz!'') = Inr (str ''Tr0ub4dor&3xyz!'')"
  "utf8_encode (str ''maple-ocean-18'') = Inr (str ''maple-ocean-18'')"
  "utf8_encode (str ''river-stone-24'') = Inr (str ''river-stone-24'')"
  by (simp_all add: str_def utf8_bytes_def)

lemma demo_digest:
  "py_upper demo_lib (sha1_hexdigest demo_lib (str ''Tr0ub4dor&3xyz!''))
     = str ''1680239B4266DF6CBF9D9DEA1300736C533EA397''"
  "py_upper demo_lib (sha1_hexdigest demo_lib (str ''maple-ocean-18''))
     = str ''FE53056C954910CB540BAAD351D5442CA3B96067''"
  "py_upper demo_lib (sha1_hexdigest demo_lib (str ''river-stone-24''))
     = str ''FE5306020E3A0FA14506F1C00B563B97B9263C81''"
  by (simp_all add: demo_lib_def sha1_known_def str_def py_upper_def char_defs)

lemma demo_request:
  "requests_sent (snd (check_pwned demo_lib W (str ''Tr0ub4dor&3xyz!'') USER_AGENT io0))
     = requests_sent io0
       @ [\<lparr>url = HIBP_RANGE_API @ str ''16802'',
            headers = [(str ''User-Agent'', USER_AGENT)], timeout = 10\<rparr>]"
  by (simp add: requests_check_pwned demo_encode demo_digest) (simp add: str_def)

lemma demo_scan_negative:
  "scan_lines demo_lib (str ''39B4266DF6CBF9D9DEA1300736C533EA397'') (splitlines body_negative)
     = - 5"
  by (simp add: body_negative_def splitlines_def str_def is_linebreak_def Let_def py_strip_def
      is_space_def py_upper_def char_defs demo_lib_def py_int_def int_char_def is_c_space_def
      int_digits_ok_def)

lemma demo_scan_found:
  "find (\<lambda>line. length (py_split 58 line) = 2
              \<and> py_upper demo_lib (py_strip (py_split 58 line ! 0))
                = str ''39B4266DF6CBF9D9DEA1300736C533EA397'')
     (splitlines body_found)
   = Some (str ''39b4266df6cbf9d9dea1300736c533ea397:12'')"
  by (simp add: body_found_def splitlines_def str_def is_linebreak_def py_strip_def is_space_def
      py_upper_def char_defs demo_lib_def)

lemma demo_count:
  "py_int demo_lib (py_strip (py_split 58 (str ''39b4266df6cbf9d9dea1300736c533ea397:12'') ! 1))
     = Some 12"
  by (simp add: str_def py_strip_def is_space_def py_int_def int_char_def is_c_space_def
      int_digits_ok_def char_defs Let_def)


section \<open>Claims about the breach lookup\<close>

text \<open>
  C1: whenever the request that \<open>check_pwned\<close> sent fails at the transport level
  (\<open>requests.get\<close> raises a \<open>RequestException\<close>: a timeout, a connection error) or is
  answered with a status other than 200, \<open>check_pwned\<close> returns \<open>None\<close>, the unknown
  result; that result is not the count 0.
\<close>

theorem check_pwned_unknown_on_failure:
  assumes "requests_sent (snd (check_pwned L W password user_agent st)) = requests_sent st @ [rq]"
    and "http_get W rq = RequestException
         \<or> (\<exists>status body. http_get W rq = Response status body \<and> status \<noteq> 200)"
  shows "fst (check_pwned L W password user_agent st) = Inr None
    \<and> fst (check_pwned L W password user_agent st) \<noteq> Inr (Some 0)"
proof (cases "utf8_encode password")
  case (Inl e)
  then show ?thesis
    using assms(1) by (simp add: requests_check_pwned)
next
  case (Inr bytes)
  then have "rq = \<lparr>url = HIBP_RANGE_API @ take 5 (py_upper L (sha1_hexdigest L bytes)),
                   headers = [(str ''User-Agent'', user_agent)], timeout = 10\<rparr>"
    using assms(1) by (simp add: requests_check_pwned)
  then show ?thesis
    using assms(2) Inr by (auto simp: check_pwned_encodable Let_def)
qed

text \<open>A lookup that times out and one answered with status 503, for one password.\<close>

theorem check_pwned_unknown_on_failure_witness:
  "fst (check_pwned demo_lib (demo_world RequestException) (str ''Tr0ub4dor&3xyz!'')
          USER_AGENT io0) = Inr None
   \<and> fst (check_pwned demo_lib (demo_world (Response 503 [])) (str ''Tr0ub4dor&3xyz!'')
          USER_AGENT io0) = Inr None"
proof -
  have "http_get (demo_world RequestException) rq = RequestException"
    and "http_get (demo_world (Response 503 [])) rq = Response 503 [] \<and> (503 :: int) \<noteq> 200"
    for rq
    by (simp_all add: demo_world_def)
  then show ?thesis
    using check_pwned_unknown_on_failure [OF demo_request [of "demo_world RequestException"]]
      check_pwned_unknown_on_failure [OF demo_request [of "demo_world (Response 503 [])"]]
    by blast
qed

text \<open>
  C2: the request \<open>check_pwned\<close> sends is built from the first five characters of the
  upper-case SHA-1 digest of the password's UTF-8 encoding and from nothing else of the
  password. Two passwords whose digests share those five characters send the same
  request (URL, headers, timeout), whatever the world answers; the rest of the digest,
  35 characters of the 40 that \<open>hashlib\<close> returns, is in no request.
\<close>

theorem request_depends_on_prefix_only:
  assumes "utf8_encode p1 = Inr b1" and "utf8_encode p2 = Inr b2"
    and "take 5 (py_upper L (sha1_hexdigest L b1)) = take 5 (py_upper L (sha1_hexdigest L b2))"
  shows "requests_sent (snd (check_pwned L W1 p1 user_agent st))
           = requests_sent (snd (check_pwned L W2 p2 user_agent st))
    \<and> requests_sent (snd (check_pwned L W1 p1 user_agent st))
           = requests_sent st
             @ [\<lparr>url = HIBP_RANGE_API @ take 5 (py_upper L (sha1_hexdigest L b1)),
                  headers = [(str ''User-Agent'', user_agent)], timeout = 10\<rparr>]
    \<and> (length (sha1_hexdigest L b1) = 40 \<and> list_all (\<lambda>c. c < 128) (sha1_hexdigest L b1)
         \<longrightarrow> length (take 5 (py_upper L (sha1_hexdigest L b1))) = 5
             \<and> length (drop 5 (py_upper L (sha1_hexdigest L b1))) = 35)"
proof -
  have "length (py_upper L (sha1_hexdigest L b1)) = 40"
    if "length (sha1_hexdigest L b1) = 40" "list_all (\<lambda>c. c < 128) (sha1_hexdigest L b1)"
    using that py_upper_ascii [of "sha1_hexdigest L b1" L] by (simp add: list_all_iff)
  then have "length (sha1_hexdigest L b1) = 40 \<and> list_all (\<lambda>c. c < 128) (sha1_hexdigest L b1)
         \<longrightarrow> length (take 5 (py_upper L (sha1_hexdigest L b1))) = 5
             \<and> length (drop 5 (py_upper L (sha1_hexdigest L b1))) = 35"
    by simp
  moreover have "requests_sent (snd (check_pwned L W1 p1 user_agent st))
           = requests_sent (snd (check_pwned L W2 p2 user_agent st))"
    using assms by (simp add: requests_check_pwned)
  moreover have "requests_sent (snd (check_pwned L W1 p1 user_agent st))
           = requests_sent st
             @ [\<lparr>url = HIBP_RANGE_API @ take 5 (py_upper L (sha1_hexdigest L b1)),
                  headers = [(str ''User-Agent'', user_agent)], timeout = 10\<rparr>]"
    using assms by (simp add: requests_check_pwned)
  ultimately show ?thesis by blast
qed

text \<open>Two passwords with different digests that share the prefix \<open>FE530\<close>.\<close>

theorem request_depends_on_prefix_only_witness:
  "requests_sent (snd (check_pwned demo_lib (demo_world RequestException)
                         (str ''maple-ocean-18'') USER_AGENT io0))
     = requests_sent (snd (check_pwned demo_lib (demo_world RequestException)
                             (str ''river-stone-24'') USER_AGENT io0))
   \<and> requests_sent (snd (check_pwned demo_lib (demo_world RequestException)
                           (str ''maple-ocean-18'') USER_AGENT io0))
     = [\<lparr>url = HIBP_RANGE_API @ str ''FE530'',
          headers = [(str ''User-Agent'', USER_AGENT)], timeout = 10\<rparr>]
   \<and> sha1_hexdigest demo_lib (str ''maple-ocean-18'')
       \<noteq> sha1_hexdigest demo_lib (str ''river-stone-24'')
   \<and> length (drop 5 (py_upper demo_lib (sha1_hexdigest demo_lib (str ''maple-ocean-18'')))) = 35"
proof -
  have p: "take 5 (py_upper demo_lib (sha1_hexdigest demo_lib (str ''maple-ocean-18'')))
        = take 5 (py_upper demo_lib (sha1_hexdigest demo_lib (str ''river-stone-24'')))"
    "take 5 (py_upper demo_lib (sha1_hexdigest demo_lib (str ''maple-ocean-18''))) = str ''FE530''"
    by (simp_all add: demo_digest) (simp_all add: str_def)
  have d: "sha1_hexdigest demo_lib (str ''maple-ocean-18'')
       \<noteq> sha1_hexdigest demo_lib (str ''river-stone-24'')"
    by (simp add: demo_lib_def sha1_known_def str_def)
  have h: "length (sha1_hexdigest demo_lib (str ''maple-ocean-18'')) = 40
    \<and> list_all (\<lambda>c. c < 128) (sha1_hexdigest demo_lib (str ''maple-ocean-18''))"
    by (simp add: demo_lib_def sha1_known_def str_def)
  note r = request_depends_on_prefix_only [OF demo_encode(2) demo_encode(3) p(1),
      of "demo_world RequestException" USER_AGENT io0 "demo_world RequestException"]
  have a: "requests_sent (snd (check_pwned demo_lib (demo_world RequestException)
                           (str ''maple-ocean-18'') USER_AGENT io0))
     = [\<lparr>url = HIBP_RANGE_API @ str ''FE530'',
          headers = [(str ''User-Agent'', USER_AGENT)], timeout = 10\<rparr>]"
    using r [THEN conjunct2, THEN conjunct1] p(2) by (simp add: io0_def)
  have l: "length (drop 5 (py_upper demo_lib (sha1_hexdigest demo_lib (str ''maple-ocean-18'')))) = 35"
    using r [THEN conjunct2, THEN conjunct2] h by blast
  show ?thesis
    by (intro conjI r [THEN conjunct1] a d l)
qed

text \<open>
  C3, as the code has it: on a response with status 200 \<open>check_pwned\<close> returns a count.
  It is taken from the first line of the response that splits at colons into exactly two
  fields and whose first field, stripped and upper-cased, equals the suffix of the digest:
  the count is what \<open>int\<close> makes of the stripped second field, a signed integer, and 1
  when \<open>int\<close> rejects the field; without such a line the count is 0. A count below zero
  comes only from a count field that starts with a minus sign.
\<close>

theorem check_pwned_count:
  fixes L :: pylib and W :: world and password user_agent body :: pystr and bytes :: "nat list"
  defines "sha1 \<equiv> py_upper L (sha1_hexdigest L bytes)"
  defines "matches \<equiv> (\<lambda>line. length (py_split 58 line) = 2
                             \<and> py_upper L (py_strip (py_split 58 line ! 0)) = drop 5 sha1)"
  assumes "utf8_encode password = Inr bytes"
    and "http_get W \<lparr>url = HIBP_RANGE_API @ take 5 sha1,
                     headers = [(str ''User-Agent'', user_agent)], timeout = 10\<rparr>
           = Response 200 body"
  shows "fst (check_pwned L W password user_agent st) =
      Inr (Some (case find matches (splitlines body) of
                   None \<Rightarrow> 0
                 | Some line \<Rightarrow> (case py_int L (py_strip (py_split 58 line ! 1)) of
                                  Some n \<Rightarrow> n | None \<Rightarrow> 1)))
    \<and> (\<forall>n. fst (check_pwned L W password user_agent st) = Inr (Some n) \<and> n < 0
          \<longrightarrow> (\<exists>line. find matches (splitlines body) = Some line
                       \<and> hd (py_strip (py_split 58 line ! 1)) = 45))"
proof -
  have r: "fst (check_pwned L W password user_agent st) =
      Inr (Some (case find matches (splitlines body) of
                   None \<Rightarrow> 0
                 | Some line \<Rightarrow> (case py_int L (py_strip (py_split 58 line ! 1)) of
                                  Some n \<Rightarrow> n | None \<Rightarrow> 1)))"
    using assms(3,4) unfolding matches_def sha1_def
    by (simp add: check_pwned_encodable Let_def scan_lines_find)
  have "\<exists>line. find matches (splitlines body) = Some line
                \<and> hd (py_strip (py_split 58 line ! 1)) = 45"
    if "fst (check_pwned L W password user_agent st) = Inr (Some n)" and "n < 0" for n
    using that py_int_negative unfolding r
    by (auto split: option.splits)
  then show ?thesis
    using r by blast
qed

text \<open>A response whose second line has the suffix in lower case and the count 12.\<close>

theorem check_pwned_count_witness:
  "fst (check_pwned demo_lib (demo_world (Response 200 body_found))
          (str ''Tr0ub4dor&3xyz!'') USER_AGENT io0) = Inr (Some 12)"
proof -
  have s: "drop 5 (str ''1680239B4266DF6CBF9D9DEA1300736C533EA397'')
          = str ''39B4266DF6CBF9D9DEA1300736C533EA397''"
    by (simp add: str_def)
  have "http_get (demo_world (Response 200 body_found)) rq = Response 200 body_found" for rq
    by (simp add: demo_world_def)
  from check_pwned_count [OF demo_encode(1) this, of demo_lib USER_AGENT io0]
  show ?thesis
    by (simp add: demo_digest s demo_scan_found demo_count [unfolded One_nat_def])
qed

text \<open>
  C3 as the claim states it fails: the count is negative when the matching line gives a
  negative number.
\<close>

theorem check_pwned_negative_count:
  "fst (check_pwned demo_lib (demo_world (Response 200 body_negative))
          (str ''Tr0ub4dor&3xyz!'') USER_AGENT io0) = Inr (Some (- 5))"
proof -
  have "drop 5 (str ''1680239B4266DF6CBF9D9DEA1300736C533EA397'')
          = str ''39B4266DF6CBF9D9DEA1300736C533EA397''"
    by (simp add: str_def)
  then show ?thesis
    by (simp add: check_pwned_encodable [OF demo_encode(1)] demo_digest Let_def demo_world_def
        demo_scan_negative)
qed

section \<open>Claims about masking and normalisation\<close>

text \<open>
  C7: the mask of the empty password is the empty string; a password of at most two
  characters keeps its first character, followed by one mask character for each other
  character; a longer password keeps its first and its last character, with one mask
  character for each character in between. So \<open>"ab"\<close> gives \<open>"a*"\<close>, \<open>"abcdef"\<close>
  gives \<open>"a****f"\<close> and \<open>""\<close> gives \<open>""\<close>.
\<close>

theorem mask_password_for_log_rules:
  "mask_password_for_log [] = []
   \<and> (pw \<noteq> [] \<and> length pw \<le> 2 \<longrightarrow>
        mask_password_for_log pw = hd pw # replicate (length pw - 1) (of_char CHR ''*''))
   \<and> (2 < length pw \<longrightarrow>
        mask_password_for_log pw
          = hd pw # replicate (length pw - 2) (of_char CHR ''*'') @ [last pw])
   \<and> mask_password_for_log (str ''ab'') = str ''a*''
   \<and> mask_password_for_log (str ''abcdef'') = str ''a****f''
   \<and> mask_password_for_log (str '''') = str ''''"
proof -
  have "pw \<noteq> [] \<Longrightarrow> pw ! 0 = hd pw"
    by (simp add: hd_conv_nth)
  moreover have "2 < length pw \<Longrightarrow> pw \<noteq> []"
    by auto
  ultimately show ?thesis
    by (auto simp: mask_password_for_log_def str_def)
qed

text \<open>The rules at a password of one character and at one of six.\<close>

theorem mask_password_for_log_rules_witness:
  "mask_password_for_log (str ''x'') = str ''x''
   \<and> mask_password_for_log (str ''secret'') = str ''s****t''"
  using mask_password_for_log_rules [of "str ''x''"]
    mask_password_for_log_rules [of "str ''secret''"]
  by (simp add: str_def)

text \<open>
  C4, as the code has it: \<open>normalise_leet\<close> applies the substitution table, which maps
  \<open>!\<close> to \<open>i\<close>, keeps the ASCII letters only and lowercases them; so the input
  \<open>"P@$$w0rd!"\<close> yields \<open>"passwordi"\<close>, the final \<open>!\<close> having become an \<open>i\<close>.
\<close>

theorem normalise_leet_example:
  "normalise_leet L (str ''P@$$w0rd!'') = str ''passwordi''
   \<and> LEET_MAP (of_char CHR ''!'') = Some (str ''i'')
   \<and> normalise_leet L pw = map ascii_lower (filter is_ascii_letter (translate LEET_MAP pw))"
  unfolding normalise_leet_eq
  by (simp add: translate_def LEET_MAP_def str_def char_defs)

text \<open>C4 as the claim states it fails: the result is not \<open>"password"\<close>.\<close>

theorem normalise_leet_not_password:
  "normalise_leet demo_lib (str ''P@$$w0rd!'') \<noteq> str ''password''"
  unfolding normalise_leet_eq
  by (simp add: translate_def LEET_MAP_def str_def char_defs)

section \<open>Claims about the score and the report\<close>

text \<open>
  C5: the score the scoring rules end with is even and lies between 0 and 10, for every
  password; it is the score the report of those rules prints.
\<close>

theorem score_rules_even:
  "even (fst (score_rules password))
   \<and> 0 \<le> fst (score_rules password) \<and> fst (score_rules password) \<le> 10
   \<and> stdout (score_and_report W password pwned_count st) ! Suc (length (stdout st))
       = str ''Score: '' @ str_int (fst (score_rules password)) @ str '' / 10''"
proof -
  have "even (fst (score_rules password))"
    by (simp add: score_rules_def Let_def)
  moreover have "0 \<le> fst (score_rules password) \<and> fst (score_rules password) \<le> 10"
    by (simp add: score_rules_def Let_def)
  moreover have "stdout (score_and_report W password pwned_count st) ! Suc (length (stdout st))
       = str ''Score: '' @ str_int (fst (score_rules password)) @ str '' / 10''"
    by (simp add: stdout_score_and_report nth_append)
  ultimately show ?thesis by blast
qed

text \<open>
  Nine lower-case letters collect 3 points, rounded up to 4; the second password meets
  every rule.
\<close>

theorem score_rules_even_witness:
  "fst (score_rules (str ''zyxwvutsr'')) = 4 \<and> even (fst (score_rules (str ''zyxwvutsr'')))
   \<and> fst (score_rules (str ''Tr0ub4dor&3xyz!'')) = 10"
proof -
  have "fst (score_rules (str ''zyxwvutsr'')) = 4"
    "fst (score_rules (str ''Tr0ub4dor&3xyz!'')) = 10"
    by (simp_all add: score_rules_def Let_def str_def char_defs special_chars_def)
  then show ?thesis
    using score_rules_even [of "str ''zyxwvutsr''"] by blast
qed



section \<open>Claims about the pattern detector\<close>




text \<open>
  C8: on the empty password \<open>is_common_variant\<close> returns \<open>False\<close> (no operation in it
  can raise: it is a total function to \<open>bool\<close>); the empty password is handled by the
  caller, \<open>check_strength\<close>, which prints that no password was entered and returns.
\<close>

theorem is_common_variant_empty:
  "is_common_variant L [] = False
   \<and> check_strength L W [] use_hibp st = (Inr (), py_print (str ''No password entered.'') st)"
  by (simp add: is_common_variant_Nil check_strength_def)

text \<open>The same with the demonstration runtime, and what the caller prints.\<close>

theorem is_common_variant_empty_witness:
  "is_common_variant demo_lib [] = False
   \<and> stdout (snd (check_strength demo_lib (demo_world RequestException) [] True io0))
       = [str ''No password entered.'']"
  using is_common_variant_empty [of demo_lib "demo_world RequestException" True io0]
  by (simp add: py_print_def io0_def)

text \<open>
  C9: for a password that \<open>is_common_variant\<close> accepts, \<open>check_strength\<close> ends in its
  first branch, whatever \<open>use_hibp\<close> says: it sends no request, its result is the same
  under any answer of the service and any value of the flag, it prints the score 0 and
  the label of a common pattern, and the log line it writes ends with \<open>pwned:0\<close>.
\<close>

theorem common_variant_stops_before_lookup:
  assumes "is_common_variant L pw"
  shows "check_strength L W pw use_hibp st = (Inr (), reject_common W pw st)
    \<and> check_strength L (W\<lparr>http_get := g\<rparr>) pw use_hibp' st = check_strength L W pw use_hibp st
    \<and> requests_sent (snd (check_strength L W pw use_hibp st)) = requests_sent st
    \<and> stdout (snd (check_strength L W pw use_hibp st)) =
        stdout st @ [[10] @ str ''Password Strength: '' @ label_common,
                     str ''Score: 0 / 10'', str ''[----------]'',
                     str ''Suggestions:'' @ [10]
                     @ str '' - Avoid common words or predictable patterns.'' @ [10]
                     @ str '' - Use a unique long passphrase.'']
    \<and> log_file (snd (check_strength L W pw use_hibp st)) =
        (let line = utc_now_iso W @ [9] @ mask_password_for_log pw @ [9] @ str ''0/10'' @ [9]
                    @ label_common @ [9] @ str ''pwned:0'' @ [10]
         in if log_append_ok W line then log_file st @ [line] else log_file st)"
  using assms
  by (simp add: check_strength_common stdout_reject_common log_file_reject_common)

text \<open>The run on \<open>P@ssw0rd\<close>, with the lookup switched on.\<close>

theorem common_variant_stops_before_lookup_witness:
  "is_common_variant demo_lib (str ''P@ssw0rd'')
   \<and> requests_sent (snd (check_strength demo_lib (demo_world (Response 200 []))
                          (str ''P@ssw0rd'') True io0)) = []
   \<and> log_file (snd (check_strength demo_lib (demo_world (Response 200 []))
                       (str ''P@ssw0rd'') True io0))
      = [str ''2024-05-01T12:00:00+00:00'' @ [9] @ str ''P******d'' @ [9] @ str ''0/10'' @ [9]
         @ label_common @ [9] @ str ''pwned:0'' @ [10]]"
proof -
  note run = common_variant_stops_before_lookup
    [OF demo_common, where W = "demo_world (Response 200 [])" and use_hibp = True
       and st = io0 and g = "\<lambda>rq. RequestException" and use_hibp' = False]
  note requests = run [THEN conjunct2, THEN conjunct2, THEN conjunct1]
  note log = run [THEN conjunct2, THEN conjunct2, THEN conjunct2, THEN conjunct2]
  have mask: "mask_password_for_log (str ''P@ssw0rd'') = str ''P******d''"
    by (simp add: mask_password_for_log_def str_def)
  have "requests_sent io0 = []" "log_file io0 = []"
    "utc_now_iso (demo_world (Response 200 [])) = str ''2024-05-01T12:00:00+00:00''"
    "log_append_ok (demo_world (Response 200 [])) = (\<lambda>line. True)"
    by (simp_all add: io0_def demo_world_def)
  then show ?thesis
    using demo_common requests log mask by (simp add: Let_def)
qed

end
